theory Spec2Isabelle
  imports Main "HOL-Library.Word" "HOL-Library.Finite_Map"
begin

section \<open>Errors and panics\<close>

text \<open>
  Every error value of \<^verbatim>\<open>watcher.go\<close> is either built by \<^verbatim>\<open>errors.New\<close> in
  \<^verbatim>\<open>NewWatcher\<close>, or handed back by the bus client (\<^verbatim>\<open>Ping().Err()\<close>,
  \<^verbatim>\<open>Publish(...).Err()\<close>, \<^verbatim>\<open>Close()\<close>), or returned by \<^verbatim>\<open>json.Unmarshal\<close>.
  A nil error is \<open>None\<close>.
\<close>

datatype error =
    errors_New string
  | redis_error string
  | json_SyntaxError
  | json_UnmarshalTypeError

text \<open>A run-time panic of the Go runtime, with its message.\<close>

datatype panic = Panic string


section \<open>Options (options.go)\<close>

text \<open>
  \<^verbatim>\<open>rds.Options\<close> is embedded in \<^verbatim>\<open>WatcherOptions\<close>; of its fields the package reads
  \<^verbatim>\<open>Addr\<close> and \<^verbatim>\<open>Password\<close>, and \<^verbatim>\<open>PoolSize\<close> is the field the pool budget would be
  passed in. Go's \<^verbatim>\<open>int\<close> and \<^verbatim>\<open>uint\<close> are 64-bit words.
\<close>

record rds_Options =
  Addr :: string
  Password :: string
  PoolSize :: "64 word"

text \<open>
  The three client constructors of the bus library, with the option fields
  \<^verbatim>\<open>NewWatcher\<close> fills in: \<^verbatim>\<open>rds.NewFailoverClient\<close> (MasterName, SentinelAddrs,
  PoolSize), \<^verbatim>\<open>rds.NewClusterClient\<close> (Addrs, Password, PoolSize) and
  \<^verbatim>\<open>rds.NewClient\<close> (a whole \<^verbatim>\<open>rds.Options\<close>).
\<close>

datatype client =
    NewFailoverClient string "string list" "64 word"
  | NewClusterClient "string list" string "64 word"
  | NewClient rds_Options

text \<open>
  A callback \<^verbatim>\<open>func(string)\<close> is either the closure \<^verbatim>\<open>initConfig\<close> installs, which
  logs that no callback was set, or a function of the caller, named by a number.
  A nil function value is \<open>None\<close>.
\<close>

datatype callback = log_not_set | user_func nat

record WatcherOptions =
  Options :: rds_Options
  SubClient :: "client option"
  PubClient :: "client option"
  Channel :: string
  IgnoreSelf :: bool
  LocalID :: string
  Addresses :: "string list"
  Namespace :: string
  MaxConnections :: "64 word"
  UseSentinel :: bool
  MasterName :: string
  OptionalUpdateCallback :: "callback option"

text \<open>\<^verbatim>\<open>initConfig(option *WatcherOptions)\<close>; \<open>uuid\<close> is what \<^verbatim>\<open>uuid.New().String()\<close> returns.\<close>

definition initConfig :: "string \<Rightarrow> WatcherOptions \<Rightarrow> WatcherOptions" where
  "initConfig uuid option =
     (let option1 = (if LocalID option = [] then option\<lparr>LocalID := uuid\<rparr> else option)
      in if Channel option1 = [] then option1\<lparr>Channel := ''/casbin''\<rparr> else option1)"


section \<open>JSON documents\<close>

text \<open>
  \<^verbatim>\<open>json.Marshal\<close> writes a JSON document and \<^verbatim>\<open>json.Unmarshal\<close> reads one. The
  document is the tree below; its rendering as bytes and the parsing of bytes into it
  belong to \<^verbatim>\<open>encoding/json\<close>. A number is its literal.
\<close>

datatype json =
    JNull
  | JBool bool
  | JNumber string
  | JString string
  | JArray "json list"
  | JObject "(string, json) fmap"


section \<open>The envelope (MSG) and the values its Params field holds\<close>

text \<open>
  \<^verbatim>\<open>Params interface{}\<close> holds a dynamically typed Go value. The publishers store a
  \<^verbatim>\<open>string\<close>, a \<^verbatim>\<open>[]string\<close> (nil when a variadic call passes no argument) or a
  \<^verbatim>\<open>model.Model\<close>; \<^verbatim>\<open>json.Unmarshal\<close> stores nil, \<^verbatim>\<open>bool\<close>, \<^verbatim>\<open>float64\<close>,
  \<^verbatim>\<open>string\<close>, \<^verbatim>\<open>[]interface{}\<close> or \<^verbatim>\<open>map[string]interface{}\<close>. A number is kept
  as its literal. \<^verbatim>\<open>model.Model\<close> is a type of the policy engine, which the watcher
  only hands to \<^verbatim>\<open>json.Marshal\<close>: a model is given by the document written for it.
\<close>

datatype go_value =
    GoNil
  | GoBool bool
  | GoFloat64 string
  | GoString string
  | GoStrings "string list option"
  | GoModel json
  | GoSlice "go_value list"
  | GoMap "(string, go_value) fmap"

record MSG =
  Method :: string
  ID :: string
  Sec :: string
  Ptype :: string
  Params :: go_value


section \<open>The codec: MarshalBinary and UnmarshalBinary\<close>

text \<open>
  A Go string is a byte sequence. The encoder writes a string rune by rune and writes
  U+FFFD for every byte that does not start a valid UTF-8 sequence, so the string of
  the document is \<open>to_valid_utf8 s\<close>. \<open>rune_size s\<close> is the length in bytes of the
  valid sequence at the head of \<open>s\<close> (the table of \<^verbatim>\<open>unicode/utf8\<close>), 0 when there
  is none.
\<close>

definition byte :: "char \<Rightarrow> nat" where
  "byte c = of_char c"

fun continuation :: "nat \<Rightarrow> nat \<Rightarrow> nat \<Rightarrow> string \<Rightarrow> bool" where
  "continuation 0 lo hi s = True"
| "continuation (Suc n) lo hi [] = False"
| "continuation (Suc n) lo hi (c # s) = (lo \<le> byte c \<and> byte c \<le> hi \<and> continuation n 128 191 s)"

definition rune_size :: "string \<Rightarrow> nat" where
  "rune_size s =
     (case s of
        [] \<Rightarrow> 0
      | a # t \<Rightarrow>
          if byte a < 128 then 1
          else if byte a < 194 then 0
          else if byte a < 224 then (if continuation 1 128 191 t then 2 else 0)
          else if byte a < 240 then
            (if continuation 2 (if byte a = 224 then 160 else 128) (if byte a = 237 then 159 else 191) t
             then 3 else 0)
          else if byte a < 245 then
            (if continuation 3 (if byte a = 240 then 144 else 128) (if byte a = 244 then 143 else 191) t
             then 4 else 0)
          else 0)"

definition replacement_char :: string where
  "replacement_char = [char_of (239::nat), char_of (191::nat), char_of (189::nat)]"

function to_valid_utf8 :: "string \<Rightarrow> string" where
  "to_valid_utf8 s =
     (if s = [] then []
      else if rune_size s = 0 then replacement_char @ to_valid_utf8 (tl s)
      else take (rune_size s) s @ to_valid_utf8 (drop (rune_size s) s))"
  by pat_completeness auto
termination
  by (relation "measure length") auto

declare to_valid_utf8.simps [simp del]

function valid_utf8 :: "string \<Rightarrow> bool" where
  "valid_utf8 s =
     (if s = [] then True
      else if rune_size s = 0 then False
      else valid_utf8 (drop (rune_size s) s))"
  by pat_completeness auto
termination
  by (relation "measure length") auto

declare valid_utf8.simps [simp del]

text \<open>
  \<^verbatim>\<open>json.Marshal\<close> of the value in an \<^verbatim>\<open>interface{}\<close>. A nil slice is written
  \<^verbatim>\<open>null\<close>.
\<close>

primrec marshal :: "go_value \<Rightarrow> json" where
  "marshal GoNil = JNull"
| "marshal (GoBool b) = JBool b"
| "marshal (GoFloat64 l) = JNumber l"
| "marshal (GoString s) = JString (to_valid_utf8 s)"
| "marshal (GoStrings xs) =
     (case xs of None \<Rightarrow> JNull | Some ys \<Rightarrow> JArray (map (\<lambda>y. JString (to_valid_utf8 y)) ys))"
| "marshal (GoModel doc) = doc"
| "marshal (GoSlice vs) = JArray (map marshal vs)"
| "marshal (GoMap kvs) = JObject (fmmap marshal kvs)"

text \<open>\<^verbatim>\<open>json.Unmarshal\<close> into an \<^verbatim>\<open>interface{}\<close>.\<close>

primrec to_interface :: "json \<Rightarrow> go_value" where
  "to_interface JNull = GoNil"
| "to_interface (JBool b) = GoBool b"
| "to_interface (JNumber l) = GoFloat64 l"
| "to_interface (JString s) = GoString s"
| "to_interface (JArray js) = GoSlice (map to_interface js)"
| "to_interface (JObject kvs) = GoMap (fmmap to_interface kvs)"

text \<open>
  \<^verbatim>\<open>MarshalBinary\<close> is \<^verbatim>\<open>json.Marshal(m)\<close>: an object with one member for each
  exported field of \<^verbatim>\<open>MSG\<close>, named as the field.
\<close>

definition MarshalBinary :: "MSG \<Rightarrow> error + json" where
  "MarshalBinary m =
     Inr (JObject (fmap_of_list
       [(''Method'', JString (to_valid_utf8 (Method m))),
        (''ID'', JString (to_valid_utf8 (ID m))),
        (''Sec'', JString (to_valid_utf8 (Sec m))),
        (''Ptype'', JString (to_valid_utf8 (Ptype m))),
        (''Params'', marshal (Params m))]))"

text \<open>
  \<^verbatim>\<open>json.Unmarshal\<close> into a \<^verbatim>\<open>string\<close> field, given the member of that name if
  there is one and the field's old value: the new value, and whether the member fits
  (\<^verbatim>\<open>null\<close> and an absent member leave the field as it is).
\<close>

fun string_field :: "json option \<Rightarrow> string \<Rightarrow> string \<times> bool" where
  "string_field None old = (old, True)"
| "string_field (Some JNull) old = (old, True)"
| "string_field (Some (JString s)) old = (s, True)"
| "string_field (Some j) old = (old, False)"

text \<open>
  \<^verbatim>\<open>UnmarshalBinary\<close> is \<^verbatim>\<open>json.Unmarshal(data, m)\<close>. \<open>data\<close> is the document the
  bytes parse to, \<open>None\<close> when they do not parse (the empty input does not). The
  receiver \<open>m\<close> is written field by field; a member that does not fit its field is
  skipped and reported after the others are stored. Members are looked up by the name
  of the field as written (\<^verbatim>\<open>encoding/json\<close> also takes a name that differs in letter
  case only, which \<^verbatim>\<open>MarshalBinary\<close> never writes).
\<close>

definition UnmarshalBinary :: "json option \<Rightarrow> MSG \<Rightarrow> MSG \<times> error option" where
  "UnmarshalBinary data m =
     (case data of
        None \<Rightarrow> (m, Some json_SyntaxError)
      | Some JNull \<Rightarrow> (m, None)
      | Some (JObject kvs) \<Rightarrow>
          (let (method, ok1) = string_field (fmlookup kvs ''Method'') (Method m);
               (id, ok2) = string_field (fmlookup kvs ''ID'') (ID m);
               (sec, ok3) = string_field (fmlookup kvs ''Sec'') (Sec m);
               (ptype, ok4) = string_field (fmlookup kvs ''Ptype'') (Ptype m);
               params = (case fmlookup kvs ''Params'' of
                           None \<Rightarrow> Params m
                         | Some j \<Rightarrow> to_interface j)
           in (\<lparr>Method = method, ID = id, Sec = sec, Ptype = ptype, Params = params\<rparr>,
               if ok1 \<and> ok2 \<and> ok3 \<and> ok4 then None else Some json_UnmarshalTypeError))
      | Some j \<Rightarrow> (m, Some json_UnmarshalTypeError))"

text \<open>Encoding an envelope and decoding the bytes into the receiver \<open>m0\<close>.\<close>

definition decode_encode :: "MSG \<Rightarrow> MSG \<Rightarrow> MSG \<times> error option" where
  "decode_encode m0 e =
     (case MarshalBinary e of
        Inl err \<Rightarrow> (m0, Some err)
      | Inr doc \<Rightarrow> UnmarshalBinary (Some doc) m0)"


section \<open>The watcher (watcher.go)\<close>

text \<open>
  What \<^verbatim>\<open>Publish\<close> is given as message: a \<^verbatim>\<open>*MSG\<close>, which the bus client encodes with
  \<^verbatim>\<open>MarshalBinary\<close>, or a plain string.
\<close>

datatype message = Envelope MSG | Text string

text \<open>
  The calls the watcher makes on its collaborators, in the order it makes them:
  the three methods of the two clients, \<^verbatim>\<open>sub.Close()\<close> of the subscription,
  \<^verbatim>\<open>log.Println\<close> of an error or of a string, and the call \<^verbatim>\<open>w.callback(data)\<close>.
\<close>

datatype effect =
    subClient_Ping
  | pubClient_Ping
  | subClient_Subscribe string
  | pubClient_Publish string message
  | sub_Close
  | pubClient_Close
  | subClient_Close
  | log_Println_error error
  | log_Println string
  | call_callback callback string

text \<open>
  The goroutine \<^verbatim>\<open>subscribe\<close> starts: not yet started, inside \<^verbatim>\<open>for msg := range ch\<close>,
  or returned (its deferred function has run).
\<close>

datatype loop_state = Idle | Running | Closed

text \<open>
  The struct \<^verbatim>\<open>Watcher\<close>. The channel \<^verbatim>\<open>close\<close> carries no value and is only ever
  closed, so it is the flag "has been closed". The mutex \<^verbatim>\<open>l\<close> is not a field of
  the model: every operation below is one atomic step. \<open>subscriber\<close> is the state of
  the goroutine, which the struct does not hold.
\<close>

record Watcher =
  subClient :: client
  pubClient :: client
  options :: WatcherOptions
  close :: bool
  callback :: "callback option"
  subscriber :: loop_state

definition SetUpdateCallback :: "Watcher \<Rightarrow> callback option \<Rightarrow> Watcher \<times> error option" where
  "SetUpdateCallback w cb = (w\<lparr>callback := cb\<rparr>, None)"

text \<open>The method \<^verbatim>\<open>(w *Watcher) initConfig(option)\<close>.\<close>

definition Watcher_initConfig :: "Watcher \<Rightarrow> WatcherOptions \<Rightarrow> Watcher \<times> error option" where
  "Watcher_initConfig w option =
     (let (w1, err) =
            (if OptionalUpdateCallback option \<noteq> None
             then SetUpdateCallback w (OptionalUpdateCallback option)
             else SetUpdateCallback w (Some log_not_set))
      in if err \<noteq> None then (w1, err)
         else let w2 = (case SubClient option of Some c \<Rightarrow> w1\<lparr>subClient := c\<rparr> | None \<Rightarrow> w1);
                  w3 = (case PubClient option of Some c \<Rightarrow> w2\<lparr>pubClient := c\<rparr> | None \<Rightarrow> w2)
              in (w3, None))"

text \<open>
  What \<^verbatim>\<open>NewWatcher\<close> reads from outside: \<^verbatim>\<open>runtime.NumCPU()\<close>, the fresh UUID, and
  the answers of the two liveness probes.
\<close>

record environment =
  NumCPU :: "64 word"
  uuid_New :: string
  subClient_Ping_Err :: "error option"
  pubClient_Ping_Err :: "error option"

text \<open>The zero value of \<^verbatim>\<open>WatcherOptions\<close>, which \<^verbatim>\<open>w.options\<close> holds until it is assigned.\<close>

definition zero_WatcherOptions :: WatcherOptions where
  "zero_WatcherOptions =
     \<lparr>Options = \<lparr>Addr = [], Password = [], PoolSize = 0\<rparr>, SubClient = None, PubClient = None,
      Channel = [], IgnoreSelf = False, LocalID = [], Addresses = [], Namespace = [],
      MaxConnections = 0, UseSentinel = False, MasterName = [],
      OptionalUpdateCallback = None\<rparr>"

text \<open>
  The client pair of the three branches of \<^verbatim>\<open>NewWatcher\<close> (lines 93 to 140), the
  subscribe client first. The single-node branch builds \<^verbatim>\<open>rds.Options\<close> from
  \<^verbatim>\<open>Addr\<close> and \<^verbatim>\<open>Password\<close> alone, so its \<^verbatim>\<open>PoolSize\<close> is the zero value.
\<close>

definition new_clients :: "WatcherOptions \<Rightarrow> error + client \<times> client" where
  "new_clients option =
     (if UseSentinel option then
        (if MasterName option = [] then Inl (errors_New ''redis: missing MasterName for Sentinel setup'')
         else Inr (NewFailoverClient (MasterName option) (Addresses option) (MaxConnections option),
                   NewFailoverClient (MasterName option) (Addresses option) (MaxConnections option)))
      else if length (Addresses option) > 1 then
        Inr (NewClusterClient (Addresses option) (Password (Options option)) (MaxConnections option),
             NewClusterClient (Addresses option) (Password (Options option)) (MaxConnections option))
      else
        Inr (NewClient \<lparr>Addr = hd (Addresses option), Password = Password (Options option), PoolSize = 0\<rparr>,
             NewClient \<lparr>Addr = hd (Addresses option), Password = Password (Options option), PoolSize = 0\<rparr>))"

text \<open>
  \<^verbatim>\<open>subscribe\<close>: the subscription is issued and the goroutine has taken the receive
  stream (\<^verbatim>\<open>wg.Wait()\<close>) before the call returns.
\<close>

definition subscribe :: "Watcher \<Rightarrow> effect list \<times> Watcher" where
  "subscribe w = ([subClient_Subscribe (Channel (options w))], w\<lparr>subscriber := Running\<rparr>)"

text \<open>
  \<^verbatim>\<open>NewWatcher\<close>. \<open>hd\<close> is only reached on a non-empty list: the first test
  leaves when \<^verbatim>\<open>len(option.Addresses) == 0\<close>, and \<^verbatim>\<open>||\<close> does not evaluate its
  right operand then.
\<close>

definition NewWatcher :: "environment \<Rightarrow> WatcherOptions \<Rightarrow> effect list \<times> (error + Watcher)" where
  "NewWatcher env option0 =
     (if length (Addresses option0) = 0 then ([], Inl (errors_New ''redis: missing redis node address(es)''))
      else if hd (Addresses option0) = [] then ([], Inl (errors_New ''redis: missing redis node address(es)''))
      else if Namespace option0 = [] then ([], Inl (errors_New ''redis: missing key namespace''))
      else if UseSentinel option0 \<and> MasterName option0 = []
        then ([], Inl (errors_New ''redis: missing MasterName for Sentinel setup''))
      else
        let option1 = (if MaxConnections option0 = 0
                       then option0\<lparr>MaxConnections := 10 * NumCPU env\<rparr> else option0);
            option = initConfig (uuid_New env) option1
        in case new_clients option of
             Inl e \<Rightarrow> ([], Inl e)
           | Inr (sc, pc) \<Rightarrow>
               let w0 = \<lparr>subClient = sc, pubClient = pc, options = zero_WatcherOptions,
                         close = False, callback = None, subscriber = Idle\<rparr>;
                   w1 = fst (Watcher_initConfig w0 option)
               in (case subClient_Ping_Err env of
                     Some e \<Rightarrow> ([subClient_Ping], Inl e)
                   | None \<Rightarrow>
                       (case pubClient_Ping_Err env of
                          Some e \<Rightarrow> ([subClient_Ping, pubClient_Ping], Inl e)
                        | None \<Rightarrow>
                            (let w2 = w1\<lparr>options := option\<rparr>;
                                 (es, w3) = subscribe w2
                             in ([subClient_Ping, pubClient_Ping] @ es, Inr w3)))))"


subsection \<open>Publishing\<close>

text \<open>
  \<^verbatim>\<open>strings.Join(elems, sep)\<close> and the verb \<^verbatim>\<open>%d\<close> of \<^verbatim>\<open>fmt.Sprintf\<close> on an \<^verbatim>\<open>int\<close>:
  the decimal digits, after a minus sign when the number is negative.
\<close>

fun strings_Join :: "string list \<Rightarrow> string \<Rightarrow> string" where
  "strings_Join [] sep = []"
| "strings_Join [x] sep = x"
| "strings_Join (x # y # ys) sep = x @ sep @ strings_Join (y # ys) sep"

fun decimal :: "nat \<Rightarrow> string" where
  "decimal n = (if n < 10 then [char_of (48 + n)]
                else decimal (n div 10) @ [char_of (48 + n mod 10)])"

declare decimal.simps [simp del]

definition fmt_d :: "int \<Rightarrow> string" where
  "fmt_d i = (if i < 0 then CHR ''-'' # decimal (nat (- i)) else decimal (nat i))"

text \<open>\<^verbatim>\<open>fmt.Sprintf("%d %s", fieldIndex, s)\<close>\<close>

definition Sprintf_d_s :: "64 word \<Rightarrow> string \<Rightarrow> string" where
  "Sprintf_d_s fieldIndex s = fmt_d (sint fieldIndex) @ '' '' @ s"

text \<open>
  \<^verbatim>\<open>w.pubClient.Publish(w.options.Channel, message).Err()\<close>; \<open>err\<close> is the answer of
  the bus client.
\<close>

definition Publish :: "Watcher \<Rightarrow> message \<Rightarrow> error option \<Rightarrow> effect list \<times> error option" where
  "Publish w message err = ([pubClient_Publish (Channel (options w)) message], err)"

text \<open>\<^verbatim>\<open>logRecord(f)\<close>, applied to what running \<^verbatim>\<open>f\<close> did and returned.\<close>

definition logRecord :: "effect list \<times> error option \<Rightarrow> effect list \<times> error option" where
  "logRecord r = (case snd r of
                    None \<Rightarrow> (fst r, None)
                  | Some e \<Rightarrow> (fst r @ [log_Println_error e], Some e))"

definition Update :: "Watcher \<Rightarrow> error option \<Rightarrow> effect list \<times> error option" where
  "Update w err =
     logRecord (Publish w (Envelope \<lparr>Method = ''Update'', ID = LocalID (options w),
                                     Sec = [], Ptype = [], Params = GoString []\<rparr>) err)"

text \<open>
  The variadic \<^verbatim>\<open>params ...string\<close> is a \<^verbatim>\<open>[]string\<close>: nil (\<open>None\<close>) when the call
  passes no argument, the arguments in order otherwise.
\<close>

definition UpdateForAddPolicy ::
    "Watcher \<Rightarrow> string \<Rightarrow> string \<Rightarrow> string list option \<Rightarrow> error option \<Rightarrow> effect list \<times> error option" where
  "UpdateForAddPolicy w sec ptype params err =
     logRecord (Publish w (Envelope \<lparr>Method = ''UpdateForAddPolicy'', ID = LocalID (options w),
                                     Sec = sec, Ptype = ptype, Params = GoStrings params\<rparr>) err)"

definition UpdateForRemovePolicy ::
    "Watcher \<Rightarrow> string \<Rightarrow> string \<Rightarrow> string list option \<Rightarrow> error option \<Rightarrow> effect list \<times> error option" where
  "UpdateForRemovePolicy w sec ptype params err =
     logRecord (Publish w (Envelope \<lparr>Method = ''UpdateForRemovePolicy'', ID = LocalID (options w),
                                     Sec = sec, Ptype = ptype, Params = GoStrings params\<rparr>) err)"

definition UpdateForRemoveFilteredPolicy ::
    "Watcher \<Rightarrow> string \<Rightarrow> string \<Rightarrow> 64 word \<Rightarrow> string list \<Rightarrow> error option \<Rightarrow> effect list \<times> error option" where
  "UpdateForRemoveFilteredPolicy w sec ptype fieldIndex fieldValues err =
     logRecord (Publish w (Envelope \<lparr>Method = ''UpdateForRemoveFilteredPolicy'', ID = LocalID (options w),
                                     Sec = sec, Ptype = ptype,
                                     Params = GoString (Sprintf_d_s fieldIndex (strings_Join fieldValues '' ''))\<rparr>) err)"

definition UpdateForSavePolicy :: "Watcher \<Rightarrow> json \<Rightarrow> error option \<Rightarrow> effect list \<times> error option" where
  "UpdateForSavePolicy w model err =
     logRecord (Publish w (Envelope \<lparr>Method = ''UpdateForSavePolicy'', ID = LocalID (options w),
                                     Sec = [], Ptype = [], Params = GoModel model\<rparr>) err)"

subsection \<open>The subscriber loop and Close\<close>

text \<open>What the three \<^verbatim>\<open>Close()\<close> calls of the deferred function return.\<close>

record close_results =
  sub_Close_err :: "error option"
  pubClient_Close_err :: "error option"
  subClient_Close_err :: "error option"

fun log_if_err :: "error option \<Rightarrow> effect list" where
  "log_if_err None = []"
| "log_if_err (Some e) = [log_Println_error e]"

text \<open>The deferred function of the goroutine (lines 283 to 296).\<close>

definition deferred_close :: "close_results \<Rightarrow> effect list" where
  "deferred_close cr =
     [sub_Close] @ log_if_err (sub_Close_err cr) @
     [pubClient_Close] @ log_if_err (pubClient_Close_err cr) @
     [subClient_Close] @ log_if_err (subClient_Close_err cr)"

text \<open>
  What running a callback does besides being called: the closure of \<^verbatim>\<open>initConfig\<close>
  (lines 165 to 167) logs; what a function of the caller does is the caller's.
\<close>

fun callback_body :: "callback \<Rightarrow> effect list" where
  "callback_body log_not_set =
     [log_Println ''Casbin Redis Watcher callback not set when an update was received'']"
| "callback_body (user_func f) = []"

text \<open>
  One pass of \<^verbatim>\<open>for msg := range ch\<close> with \<^verbatim>\<open>msg.Payload = payload\<close> (lines 299 to
  307). Nothing is received unless the goroutine is in the loop. The \<^verbatim>\<open>select\<close> with
  a \<^verbatim>\<open>default\<close> case reads the flag without blocking; \<^verbatim>\<open>return\<close> runs the deferred
  function. Calling a nil \<^verbatim>\<open>w.callback\<close> panics: the deferred function runs and the
  panic ends the process.
\<close>

definition receive :: "close_results \<Rightarrow> string \<Rightarrow> Watcher \<Rightarrow> effect list \<times> (panic + Watcher)" where
  "receive cr payload w =
     (if subscriber w \<noteq> Running then ([], Inr w)
      else if close w then (deferred_close cr, Inr (w\<lparr>subscriber := Closed\<rparr>))
      else case callback w of
             None \<Rightarrow> (deferred_close cr,
                       Inl (Panic ''runtime error: invalid memory address or nil pointer dereference''))
           | Some cb \<Rightarrow> (call_callback cb payload # callback_body cb, Inr w))"

text \<open>
  \<^verbatim>\<open>Close\<close>: \<^verbatim>\<open>close(w.close)\<close> panics on a channel that is already closed; the
  result of \<^verbatim>\<open>Publish\<close> is not looked at.
\<close>

definition Close :: "Watcher \<Rightarrow> effect list \<times> (panic + Watcher)" where
  "Close w =
     (if close w then ([], Inl (Panic ''close of closed channel''))
      else ([pubClient_Publish (Channel (options w)) (Text ''Close'')], Inr (w\<lparr>close := True\<rparr>)))"

text \<open>
  A history of the watcher: messages arriving on the channel and calls of
  \<^verbatim>\<open>SetUpdateCallback\<close> and \<^verbatim>\<open>Close\<close>, one after the other. A panic ends the
  process, and the history with it.
\<close>

datatype event =
    Arrives close_results string
  | Calls_SetUpdateCallback "callback option"
  | Calls_Close

fun step :: "Watcher \<Rightarrow> event \<Rightarrow> effect list \<times> (panic + Watcher)" where
  "step w (Arrives cr payload) = receive cr payload w"
| "step w (Calls_SetUpdateCallback cb) = ([], Inr (fst (SetUpdateCallback w cb)))"
| "step w Calls_Close = Close w"

fun run :: "Watcher \<Rightarrow> event list \<Rightarrow> effect list \<times> (panic + Watcher)" where
  "run w [] = ([], Inr w)"
| "run w (ev # evs) =
     (case step w ev of
        (es, Inl p) \<Rightarrow> (es, Inl p)
      | (es, Inr w') \<Rightarrow> (case run w' evs of (es', r) \<Rightarrow> (es @ es', r)))"

section \<open>Example inputs\<close>

text \<open>
  The options of \<^verbatim>\<open>initWatcher\<close> in the tests (one address, namespace \<^verbatim>\<open>foo\<close>), an
  environment with four CPUs in which both probes are answered, and the watcher
  \<^verbatim>\<open>NewWatcher\<close> returns for them.
\<close>

definition example_options :: WatcherOptions where
  "example_options = zero_WatcherOptions\<lparr>Addresses := [''127.0.0.1:6379''], Namespace := ''foo''\<rparr>"

definition example_environment :: environment where
  "example_environment =
     \<lparr>NumCPU = 4, uuid_New = ''6ba7b810-9dad-11d1-80b4-00c04fd430c8'',
      subClient_Ping_Err = None, pubClient_Ping_Err = None\<rparr>"

definition example_watcher :: Watcher where
  "example_watcher =
     \<lparr>subClient = NewClient \<lparr>Addr = ''127.0.0.1:6379'', Password = [], PoolSize = 0\<rparr>,
      pubClient = NewClient \<lparr>Addr = ''127.0.0.1:6379'', Password = [], PoolSize = 0\<rparr>,
      options = example_options\<lparr>Channel := ''/casbin'',
                                 LocalID := ''6ba7b810-9dad-11d1-80b4-00c04fd430c8'',
                                 MaxConnections := 40\<rparr>,
      close = False, callback = Some log_not_set, subscriber = Running\<rparr>"

definition no_close_errors :: close_results where
  "no_close_errors = \<lparr>sub_Close_err = None, pubClient_Close_err = None, subClient_Close_err = None\<rparr>"

text \<open>The errors \<^verbatim>\<open>NewWatcher\<close> makes itself, and the panic of calling a nil function.\<close>

definition configuration_error :: "error \<Rightarrow> bool" where
  "configuration_error e =
     (e = errors_New ''redis: missing redis node address(es)'' \<or>
      e = errors_New ''redis: missing key namespace'' \<or>
      e = errors_New ''redis: missing MasterName for Sentinel setup'')"

definition nil_call_panic :: panic where
  "nil_call_panic = Panic ''runtime error: invalid memory address or nil pointer dereference''"

text \<open>
  The zero value of \<^verbatim>\<open>MSG\<close> (a fresh receiver for \<^verbatim>\<open>UnmarshalBinary\<close>), and the
  envelopes of \<^verbatim>\<open>UpdateForRemoveFilteredPolicy("p", "p", 1, "data1", "read")\<close>, of
  \<^verbatim>\<open>UpdateForAddPolicy("p", "p", "alice", "book1", "write")\<close> and of
  \<^verbatim>\<open>UpdateForAddPolicy("p", "p")\<close> on the watcher above.
\<close>

definition zero_MSG :: MSG where
  "zero_MSG = \<lparr>Method = [], ID = [], Sec = [], Ptype = [], Params = GoNil\<rparr>"

definition example_filtered :: MSG where
  "example_filtered =
     \<lparr>Method = ''UpdateForRemoveFilteredPolicy'', ID = ''6ba7b810-9dad-11d1-80b4-00c04fd430c8'',
      Sec = ''p'', Ptype = ''p'', Params = GoString ''1 data1 read''\<rparr>"

definition example_added :: MSG where
  "example_added =
     \<lparr>Method = ''UpdateForAddPolicy'', ID = ''6ba7b810-9dad-11d1-80b4-00c04fd430c8'',
      Sec = ''p'', Ptype = ''p'', Params = GoStrings (Some [''alice'', ''book1'', ''write''])\<rparr>"

definition example_added_nothing :: MSG where
  "example_added_nothing =
     \<lparr>Method = ''UpdateForAddPolicy'', ID = ''6ba7b810-9dad-11d1-80b4-00c04fd430c8'',
      Sec = ''p'', Ptype = ''p'', Params = GoStrings None\<rparr>"


section \<open>Construction\<close>

lemmas NewWatcher_defs = NewWatcher_def new_clients_def initConfig_def Watcher_initConfig_def
  SetUpdateCallback_def subscribe_def

lemma NewWatcher_example:
  "NewWatcher example_environment example_options =
     ([subClient_Ping, pubClient_Ping, subClient_Subscribe ''/casbin''], Inr example_watcher)"
  by (simp add: NewWatcher_defs example_options_def example_environment_def example_watcher_def
      zero_WatcherOptions_def Let_def)

lemma initConfig_keeps:
  "UseSentinel (initConfig u opt) = UseSentinel opt"
  "MasterName (initConfig u opt) = MasterName opt"
  by (simp_all add: initConfig_def Let_def)

lemma new_clients_Inr:
  "\<not> (UseSentinel opt \<and> MasterName opt = []) \<Longrightarrow> \<exists>sc pc. new_clients opt = Inr (sc, pc)"
  by (simp add: new_clients_def)

lemma Watcher_initConfig_callback: "callback (fst (Watcher_initConfig w opt)) \<noteq> None"
  by (cases "OptionalUpdateCallback opt")
     (simp_all add: Watcher_initConfig_def SetUpdateCallback_def Let_def split: option.splits)

lemma NewWatcher_accepts:
  assumes "Addresses option \<noteq> []" "hd (Addresses option) \<noteq> []" "Namespace option \<noteq> []"
    "\<not> (UseSentinel option \<and> MasterName option = [])"
  shows "\<exists>w1 ch. callback w1 \<noteq> None \<and>
           NewWatcher env option =
             (case subClient_Ping_Err env of
                Some e \<Rightarrow> ([subClient_Ping], Inl e)
              | None \<Rightarrow>
                  (case pubClient_Ping_Err env of
                     Some e \<Rightarrow> ([subClient_Ping, pubClient_Ping], Inl e)
                   | None \<Rightarrow> ([subClient_Ping, pubClient_Ping, subClient_Subscribe ch], Inr w1)))"
proof -
  define o2 where "o2 = initConfig (uuid_New env)
      (if MaxConnections option = 0 then option\<lparr>MaxConnections := 10 * NumCPU env\<rparr> else option)"
  have "\<not> (UseSentinel o2 \<and> MasterName o2 = [])"
    using assms(4) by (simp add: o2_def initConfig_keeps)
  then obtain sc pc where nc: "new_clients o2 = Inr (sc, pc)"
    using new_clients_Inr by blast
  define w1 where "w1 = fst (Watcher_initConfig \<lparr>subClient = sc, pubClient = pc,
      options = zero_WatcherOptions, close = False, callback = None, subscriber = Idle\<rparr> o2)"
  have u: "NewWatcher env option =
      (case new_clients o2 of
             Inl e \<Rightarrow> ([], Inl e)
           | Inr (sc, pc) \<Rightarrow>
               let w0 = \<lparr>subClient = sc, pubClient = pc, options = zero_WatcherOptions,
                         close = False, callback = None, subscriber = Idle\<rparr>;
                   w1 = fst (Watcher_initConfig w0 o2)
               in (case subClient_Ping_Err env of
                     Some e \<Rightarrow> ([subClient_Ping], Inl e)
                   | None \<Rightarrow>
                       (case pubClient_Ping_Err env of
                          Some e \<Rightarrow> ([subClient_Ping, pubClient_Ping], Inl e)
                        | None \<Rightarrow>
                            (let w2 = w1\<lparr>options := o2\<rparr>;
                                 (es, w3) = subscribe w2
                             in ([subClient_Ping, pubClient_Ping] @ es, Inr w3)))))"
    unfolding NewWatcher_def o2_def using assms
    by (simp only: Let_def list.size(3) length_0_conv if_False)
  have c: "callback (w1\<lparr>options := o2, subscriber := Running\<rparr>) \<noteq> None"
    by (simp add: w1_def Watcher_initConfig_callback)
  have "NewWatcher env option =
             (case subClient_Ping_Err env of
                Some e \<Rightarrow> ([subClient_Ping], Inl e)
              | None \<Rightarrow>
                  (case pubClient_Ping_Err env of
                     Some e \<Rightarrow> ([subClient_Ping, pubClient_Ping], Inl e)
                   | None \<Rightarrow> ([subClient_Ping, pubClient_Ping, subClient_Subscribe (Channel o2)],
                               Inr (w1\<lparr>options := o2, subscriber := Running\<rparr>))))"
    by (simp add: u nc subscribe_def w1_def Let_def split: option.splits)
  with c show ?thesis by blast
qed

lemma NewWatcher_rejects:
  assumes "Addresses option = [] \<or> hd (Addresses option) = [] \<or> Namespace option = [] \<or>
           (UseSentinel option \<and> MasterName option = [])"
  shows "\<exists>e. NewWatcher env option = ([], Inl e) \<and> configuration_error e"
  using assms by (auto simp: NewWatcher_def configuration_error_def)

lemma NewWatcher_proceeds:
  assumes "Addresses option \<noteq> []" "hd (Addresses option) \<noteq> []" "Namespace option \<noteq> []"
    "\<not> (UseSentinel option \<and> MasterName option = [])"
  shows "\<exists>es r. NewWatcher env option = (subClient_Ping # es, r)"
  using NewWatcher_accepts[OF assms, of env] by (auto split: option.splits)

lemma NewWatcher_callback:
  assumes "NewWatcher env option = (es, Inr w0)"
  shows "callback w0 \<noteq> None"
proof (cases "Addresses option = [] \<or> hd (Addresses option) = [] \<or> Namespace option = [] \<or>
           (UseSentinel option \<and> MasterName option = [])")
  case True
  from NewWatcher_rejects[OF True, of env] assms show ?thesis by auto
next
  case False
  then have "Addresses option \<noteq> []" "hd (Addresses option) \<noteq> []" "Namespace option \<noteq> []"
    "\<not> (UseSentinel option \<and> MasterName option = [])" by auto
  from NewWatcher_accepts[OF this, of env] assms show ?thesis
    by (auto split: option.splits)
qed

text \<open>
  C4, as the code has it. \<^verbatim>\<open>NewWatcher\<close> returns one of its three configuration
  errors, having called nothing on the bus, exactly when the address list is empty, or
  its first address is the empty string, or the namespace is empty, or sentinel mode is
  on without a master name. In every other case construction goes on to the liveness
  probe of the subscribe client.
\<close>

theorem NewWatcher_configuration_error:
  "((\<exists>e. NewWatcher env option = ([], Inl e) \<and> configuration_error e)
      \<longleftrightarrow> (Addresses option = [] \<or> hd (Addresses option) = [] \<or> Namespace option = [] \<or>
           (UseSentinel option \<and> MasterName option = []))) \<and>
   (\<not> (Addresses option = [] \<or> hd (Addresses option) = [] \<or> Namespace option = [] \<or>
           (UseSentinel option \<and> MasterName option = []))
      \<longrightarrow> (\<exists>es r. NewWatcher env option = (subClient_Ping # es, r)))"
proof (cases "Addresses option = [] \<or> hd (Addresses option) = [] \<or> Namespace option = [] \<or>
           (UseSentinel option \<and> MasterName option = [])")
  case True
  then have "\<exists>e. NewWatcher env option = ([], Inl e) \<and> configuration_error e"
    by (rule NewWatcher_rejects)
  with True show ?thesis by blast
next
  case False
  then obtain es r where "NewWatcher env option = (subClient_Ping # es, r)"
    using NewWatcher_proceeds[of option env] by blast
  with False show ?thesis by auto
qed

theorem NewWatcher_configuration_error_witness:
  "(\<exists>e. NewWatcher example_environment (example_options\<lparr>Namespace := []\<rparr>) = ([], Inl e) \<and>
        configuration_error e) \<and>
   (\<exists>es r. NewWatcher example_environment example_options = (subClient_Ping # es, r))"
  using NewWatcher_configuration_error[of example_environment "example_options\<lparr>Namespace := []\<rparr>"]
    NewWatcher_configuration_error[of example_environment example_options]
  by (simp add: example_options_def zero_WatcherOptions_def)

text \<open>
  C4 as stated fails: with the one address \<^verbatim>\<open>""\<close> the address list is not empty, the
  namespace is not empty and sentinel mode is off, yet \<^verbatim>\<open>NewWatcher\<close> returns the
  configuration error of a missing address.
\<close>

theorem NewWatcher_first_address_empty:
  "\<not> (Addresses (example_options\<lparr>Addresses := ['''']\<rparr>) = [] \<or>
       Namespace (example_options\<lparr>Addresses := ['''']\<rparr>) = [] \<or>
       (UseSentinel (example_options\<lparr>Addresses := ['''']\<rparr>) \<and>
        MasterName (example_options\<lparr>Addresses := ['''']\<rparr>) = [])) \<and>
   NewWatcher example_environment (example_options\<lparr>Addresses := ['''']\<rparr>) =
     ([], Inl (errors_New ''redis: missing redis node address(es)''))"
  by (simp add: NewWatcher_def example_options_def zero_WatcherOptions_def)

text \<open>
  The sentinel and the cluster branch pass the pool size to both clients.
\<close>

lemma new_clients_sentinel_pool_size:
  "UseSentinel option \<Longrightarrow> MasterName option \<noteq> [] \<Longrightarrow>
   new_clients option =
     Inr (NewFailoverClient (MasterName option) (Addresses option) (MaxConnections option),
          NewFailoverClient (MasterName option) (Addresses option) (MaxConnections option))"
  by (simp add: new_clients_def)

lemma new_clients_cluster_pool_size:
  "\<not> UseSentinel option \<Longrightarrow> length (Addresses option) > 1 \<Longrightarrow>
   new_clients option =
     Inr (NewClusterClient (Addresses option) (Password (Options option)) (MaxConnections option),
          NewClusterClient (Addresses option) (Password (Options option)) (MaxConnections option))"
  by (simp add: new_clients_def)



section \<open>Close\<close>

text \<open>
  C1 on the watcher of the tests: the first \<^verbatim>\<open>Close()\<close> closes the channel and
  publishes the notice, the second one panics with \<^verbatim>\<open>close of closed channel\<close>.
\<close>

theorem Close_twice_panics:
  "NewWatcher example_environment example_options =
     ([subClient_Ping, pubClient_Ping, subClient_Subscribe ''/casbin''], Inr example_watcher) \<and>
   Close example_watcher =
     ([pubClient_Publish ''/casbin'' (Text ''Close'')], Inr (example_watcher\<lparr>close := True\<rparr>)) \<and>
   Close (example_watcher\<lparr>close := True\<rparr>) = ([], Inl (Panic ''close of closed channel''))"
  by (simp add: NewWatcher_example Close_def)
     (simp add: example_watcher_def example_options_def zero_WatcherOptions_def)

section \<open>Publishing\<close>

lemma strings_Join_Cons:
  "strings_Join (v # rest) sep = v @ concat (map (\<lambda>x. sep @ x) rest)"
  by (induction rest arbitrary: v) auto

text \<open>
  C5. For every section, type, field index, list of field values and answer of the
  bus, \<^verbatim>\<open>UpdateForRemoveFilteredPolicy\<close> makes one \<^verbatim>\<open>Publish\<close> call on the configured
  channel, with the envelope tagged \<^verbatim>\<open>UpdateForRemoveFilteredPolicy\<close> and the local
  identifier, whose payload is the one string made of the field index in decimal, a
  space, and the field values with a space between each two of them; the error of the
  bus is logged and returned. For \<^verbatim>\<open>("p", "p", 1, "data1", "read")\<close> the payload is
  \<^verbatim>\<open>"1 data1 read"\<close>.
\<close>

theorem UpdateForRemoveFilteredPolicy_payload:
  "fst (UpdateForRemoveFilteredPolicy w sec ptype fieldIndex fieldValues err) =
     pubClient_Publish (Channel (options w))
       (Envelope \<lparr>Method = ''UpdateForRemoveFilteredPolicy'', ID = LocalID (options w),
                  Sec = sec, Ptype = ptype,
                  Params = GoString (fmt_d (sint fieldIndex) @ '' '' @
                             (case fieldValues of
                                [] \<Rightarrow> []
                              | v # rest \<Rightarrow> v @ concat (map (\<lambda>x. '' '' @ x) rest)))\<rparr>)
       # log_if_err err \<and>
   snd (UpdateForRemoveFilteredPolicy w sec ptype fieldIndex fieldValues err) = err \<and>
   fst (UpdateForRemoveFilteredPolicy w ''p'' ''p'' 1 [''data1'', ''read''] err) =
     pubClient_Publish (Channel (options w))
       (Envelope \<lparr>Method = ''UpdateForRemoveFilteredPolicy'', ID = LocalID (options w),
                  Sec = ''p'', Ptype = ''p'', Params = GoString ''1 data1 read''\<rparr>)
       # log_if_err err"
proof -
  have j: "strings_Join fieldValues '' '' =
      (case fieldValues of [] \<Rightarrow> [] | v # rest \<Rightarrow> v @ concat (map (\<lambda>x. '' '' @ x) rest))"
    by (cases fieldValues) (simp_all only: strings_Join_Cons strings_Join.simps list.case)
  have d: "fmt_d 1 = ''1''"
    by code_simp
  show ?thesis
    unfolding UpdateForRemoveFilteredPolicy_def logRecord_def Publish_def Sprintf_d_s_def j
    by (cases err) (simp_all add: d)
qed


section \<open>The subscriber loop\<close>

text \<open>
  C3, as the code has it. While the goroutine is in its loop, the channel \<^verbatim>\<open>close\<close> is
  open and a callback is registered, every inbound message, whatever its payload, makes
  the loop call the callback with the payload as it arrived: nothing is decoded, nothing
  is logged or dropped by the loop, and the watcher is left as it was, still in the
  loop.
\<close>

theorem receive_passes_payload_unparsed:
  assumes "subscriber w = Running" and "\<not> close w" and "callback w = Some cb"
  shows "receive cr payload w = (call_callback cb payload # callback_body cb, Inr w)"
  using assms by (simp add: receive_def)

theorem receive_passes_payload_unparsed_witness:
  "receive no_close_errors ''not json'' (example_watcher\<lparr>callback := Some (user_func 0)\<rparr>) =
     ([call_callback (user_func 0) ''not json''],
      Inr (example_watcher\<lparr>callback := Some (user_func 0)\<rparr>))"
proof -
  have h1: "subscriber (example_watcher\<lparr>callback := Some (user_func 0)\<rparr>) = Running"
    by (simp add: example_watcher_def)
  have h2: "\<not> close (example_watcher\<lparr>callback := Some (user_func 0)\<rparr>)"
    by (simp add: example_watcher_def)
  have h3: "callback (example_watcher\<lparr>callback := Some (user_func 0)\<rparr>) = Some (user_func 0)"
    by simp
  show ?thesis
    using receive_passes_payload_unparsed[OF h1 h2 h3, of no_close_errors "''not json''"] by simp
qed

text \<open>
  C3 as stated fails on the empty payload: it is no JSON document (decoding it is a
  syntax error), yet the loop calls the callback with it, logs nothing and drops
  nothing.
\<close>

theorem empty_payload_reaches_callback:
  "snd (UnmarshalBinary None \<lparr>Method = [], ID = [], Sec = [], Ptype = [], Params = GoNil\<rparr>)
     = Some json_SyntaxError \<and>
   receive no_close_errors [] (example_watcher\<lparr>callback := Some (user_func 0)\<rparr>) =
     ([call_callback (user_func 0) []], Inr (example_watcher\<lparr>callback := Some (user_func 0)\<rparr>))"
  by (simp add: UnmarshalBinary_def receive_def example_watcher_def)

text \<open>
  C7. When the loop leaves on the shutdown signal it makes exactly three close calls,
  in this order: \<^verbatim>\<open>sub.Close()\<close> on the subscription taken from the subscribe client
  (the subscribe connection of the loop), \<^verbatim>\<open>w.pubClient.Close()\<close> (the publish
  connection), \<^verbatim>\<open>w.subClient.Close()\<close> (the client under the subscription). An error
  of a close call is logged right after the call; whatever the three calls return, the
  next one is still made and the loop ends in \<open>Closed\<close> without a panic.
\<close>

theorem deferred_close_order:
  assumes "subscriber w = Running" and "close w"
  shows "receive cr payload w =
           (sub_Close # log_if_err (sub_Close_err cr) @
            pubClient_Close # log_if_err (pubClient_Close_err cr) @
            subClient_Close # log_if_err (subClient_Close_err cr),
            Inr (w\<lparr>subscriber := Closed\<rparr>)) \<and>
         filter (\<lambda>e. e = sub_Close \<or> e = pubClient_Close \<or> e = subClient_Close)
           (fst (receive cr payload w)) = [sub_Close, pubClient_Close, subClient_Close]"
proof -
  have l: "filter (\<lambda>e. e = sub_Close \<or> e = pubClient_Close \<or> e = subClient_Close) (log_if_err x) = []"
    for x :: "error option" by (cases x) simp_all
  show ?thesis using assms by (simp add: receive_def deferred_close_def l)
qed

theorem deferred_close_order_witness:
  "receive \<lparr>sub_Close_err = Some (redis_error ''redis: client is closed''), pubClient_Close_err = None,
            subClient_Close_err = None\<rparr> ''x'' (example_watcher\<lparr>close := True\<rparr>) =
     ([sub_Close, log_Println_error (redis_error ''redis: client is closed''), pubClient_Close,
       subClient_Close],
      Inr (example_watcher\<lparr>close := True, subscriber := Closed\<rparr>))"
proof -
  have h1: "subscriber (example_watcher\<lparr>close := True\<rparr>) = Running"
    by (simp add: example_watcher_def)
  have h2: "close (example_watcher\<lparr>close := True\<rparr>)" by simp
  show ?thesis
    using deferred_close_order[OF h1 h2, of
      "\<lparr>sub_Close_err = Some (redis_error ''redis: client is closed''), pubClient_Close_err = None,
            subClient_Close_err = None\<rparr>" "''x''"]
    by simp
qed

lemma log_if_err_no_call: "call_callback cb p \<notin> set (log_if_err x)"
  by (cases x) simp_all

lemma step_keeps_close:
  "close w \<Longrightarrow> step w ev = (es, Inr w') \<Longrightarrow> close w' \<and> (\<forall>cb p. call_callback cb p \<notin> set es)"
  by (cases ev) (auto simp: receive_def deferred_close_def SetUpdateCallback_def Close_def
      log_if_err_no_call split: if_splits)

lemma step_panic_close:
  "close w \<Longrightarrow> step w ev = (es, Inl p) \<Longrightarrow> (\<forall>cb p. call_callback cb p \<notin> set es)"
  by (cases ev) (auto simp: receive_def deferred_close_def SetUpdateCallback_def Close_def
      log_if_err_no_call split: if_splits)

lemma run_closed_no_call:
  "close w \<Longrightarrow> call_callback cb p \<notin> set (fst (run w evs))"
proof (induction evs arbitrary: w)
  case Nil
  then show ?case by simp
next
  case (Cons ev evs)
  obtain es r where s: "step w ev = (es, r)" by (metis surj_pair)
  show ?case
  proof (cases r)
    case (Inl p')
    with s Cons.prems show ?thesis using step_panic_close[of w ev es p'] by simp
  next
    case (Inr w')
    with s Cons.prems have c: "close w'" and n: "call_callback cb p \<notin> set es"
      using step_keeps_close[of w ev es w'] by auto
    from Cons.IH[OF c] n s Inr show ?thesis by (auto split: prod.splits)
  qed
qed

text \<open>
  C8. Once a call of \<^verbatim>\<open>Close()\<close> has returned, the channel \<^verbatim>\<open>close\<close> is closed; from
  then on no history of arriving messages and calls makes the loop call a callback;
  and if the loop is running, the next message that arrives makes it run its deferred
  close calls and end in \<open>Closed\<close>, the message unprocessed.
\<close>

theorem no_callback_after_Close:
  assumes "Close w = (es, Inr w')"
  shows "close w' \<and>
         (\<forall>cb p. call_callback cb p \<notin> set (fst (run w' evs))) \<and>
         (subscriber w' = Running \<longrightarrow>
            receive cr payload w' = (deferred_close cr, Inr (w'\<lparr>subscriber := Closed\<rparr>)))"
proof -
  from assms have c: "close w'" by (auto simp: Close_def split: if_splits)
  have n: "call_callback cb p \<notin> set (fst (run w' evs))" for cb p
    by (rule run_closed_no_call[OF c])
  from c n show ?thesis by (simp add: receive_def)
qed

theorem no_callback_after_Close_witness:
  "close (example_watcher\<lparr>close := True\<rparr>) \<and>
   fst (run (example_watcher\<lparr>close := True\<rparr>)
          [Arrives no_close_errors ''x'', Arrives no_close_errors ''y'']) =
     [sub_Close, pubClient_Close, subClient_Close] \<and>
   receive no_close_errors ''x'' (example_watcher\<lparr>close := True\<rparr>) =
     ([sub_Close, pubClient_Close, subClient_Close],
      Inr (example_watcher\<lparr>close := True, subscriber := Closed\<rparr>))"
proof -
  have h: "Close example_watcher =
      ([pubClient_Publish ''/casbin'' (Text ''Close'')], Inr (example_watcher\<lparr>close := True\<rparr>))"
    by (simp add: Close_def) (simp add: example_watcher_def example_options_def zero_WatcherOptions_def)
  have r: "fst (run (example_watcher\<lparr>close := True\<rparr>)
          [Arrives no_close_errors ''x'', Arrives no_close_errors ''y'']) =
     [sub_Close, pubClient_Close, subClient_Close]"
    by (simp add: receive_def deferred_close_def no_close_errors_def example_watcher_def)
  from r show ?thesis
    using no_callback_after_Close[OF h, of
        "[Arrives no_close_errors ''x'', Arrives no_close_errors ''y'']" no_close_errors "''x''"]
    by (simp add: deferred_close_def no_close_errors_def example_watcher_def)
qed


section \<open>The callback\<close>

lemma step_callback_nonnil:
  "callback w \<noteq> None \<Longrightarrow> ev \<noteq> Calls_SetUpdateCallback None \<Longrightarrow>
   snd (step w ev) \<noteq> Inl nil_call_panic \<and> (\<forall>w'. snd (step w ev) = Inr w' \<longrightarrow> callback w' \<noteq> None)"
  by (cases ev) (auto simp: receive_def SetUpdateCallback_def Close_def nil_call_panic_def
      split: option.splits)

lemma run_callback_nonnil:
  "callback w \<noteq> None \<Longrightarrow> \<forall>ev \<in> set evs. ev \<noteq> Calls_SetUpdateCallback None \<Longrightarrow>
   snd (run w evs) \<noteq> Inl nil_call_panic"
proof (induction evs arbitrary: w)
  case Nil
  then show ?case by simp
next
  case (Cons ev evs)
  obtain es r where s: "step w ev = (es, r)" by (metis surj_pair)
  from Cons.prems have ne: "ev \<noteq> Calls_SetUpdateCallback None" by simp
  show ?case
  proof (cases r)
    case (Inl p')
    with s show ?thesis using step_callback_nonnil[OF Cons.prems(1) ne] by simp
  next
    case (Inr w')
    with s have "callback w' \<noteq> None" using step_callback_nonnil[OF Cons.prems(1) ne] by simp
    with Cons.IH[of w'] Cons.prems(2) have "snd (run w' evs) \<noteq> Inl nil_call_panic" by simp
    with s Inr show ?thesis by (auto split: prod.splits)
  qed
qed

text \<open>
  C10. \<^verbatim>\<open>SetUpdateCallback(f)\<close> returns a nil error and stores \<open>f\<close> in place of the
  callback, for every \<open>f\<close>, nil too. A watcher that \<^verbatim>\<open>NewWatcher\<close> returns has a non-nil
  callback. From a watcher with a non-nil callback, no history in which
  \<^verbatim>\<open>SetUpdateCallback\<close> is never called with nil ends in the panic of calling a nil
  function; and on a running watcher whose channel \<^verbatim>\<open>close\<close> is open,
  \<^verbatim>\<open>SetUpdateCallback(nil)\<close> followed by an arriving message does end in that panic.
\<close>

theorem SetUpdateCallback_replaces:
  "SetUpdateCallback w f = (w\<lparr>callback := f\<rparr>, None) \<and>
   (NewWatcher env option = (es, Inr w0) \<longrightarrow> callback w0 \<noteq> None) \<and>
   (callback w \<noteq> None \<and> (\<forall>ev \<in> set evs. ev \<noteq> Calls_SetUpdateCallback None)
      \<longrightarrow> snd (run w evs) \<noteq> Inl nil_call_panic) \<and>
   (subscriber w = Running \<and> \<not> close w
      \<longrightarrow> snd (run w [Calls_SetUpdateCallback None, Arrives cr payload]) = Inl nil_call_panic)"
proof -
  have a: "SetUpdateCallback w f = (w\<lparr>callback := f\<rparr>, None)"
    by (simp add: SetUpdateCallback_def)
  have d: "subscriber w = Running \<and> \<not> close w
      \<longrightarrow> snd (run w [Calls_SetUpdateCallback None, Arrives cr payload]) = Inl nil_call_panic"
    by (simp add: SetUpdateCallback_def receive_def nil_call_panic_def)
  from a d show ?thesis
    using NewWatcher_callback[of env option es w0] run_callback_nonnil[of w evs] by blast
qed

theorem SetUpdateCallback_replaces_witness:
  "SetUpdateCallback example_watcher None = (example_watcher\<lparr>callback := None\<rparr>, None) \<and>
   callback example_watcher \<noteq> None \<and>
   snd (run example_watcher
          [Calls_SetUpdateCallback (Some (user_func 1)), Arrives no_close_errors ''x''])
     \<noteq> Inl nil_call_panic \<and>
   snd (run example_watcher [Calls_SetUpdateCallback None, Arrives no_close_errors ''x''])
     = Inl nil_call_panic"
proof -
  have h1: "callback example_watcher \<noteq> None" by (simp add: example_watcher_def)
  have h2: "subscriber example_watcher = Running \<and> \<not> close example_watcher"
    by (simp add: example_watcher_def)
  have h3: "\<forall>ev \<in> set [Calls_SetUpdateCallback (Some (user_func 1)), Arrives no_close_errors ''x''].
              ev \<noteq> Calls_SetUpdateCallback None"
    by simp
  show ?thesis
    using SetUpdateCallback_replaces[of example_watcher None example_environment example_options
        "[subClient_Ping, pubClient_Ping, subClient_Subscribe ''/casbin'']" example_watcher
        "[Calls_SetUpdateCallback (Some (user_func 1)), Arrives no_close_errors ''x'']"
        no_close_errors "''x''"]
      h1 h2 h3 NewWatcher_example
    by blast
qed

section \<open>The codec\<close>

lemma to_valid_utf8_valid: "valid_utf8 s \<Longrightarrow> to_valid_utf8 s = s"
proof (induction s rule: to_valid_utf8.induct)
  case (1 s)
  then show ?case
    by (subst to_valid_utf8.simps) (auto simp: valid_utf8.simps[of s] split: if_splits)
qed

lemma decode_encode_eq:
  "decode_encode m0 e =
     (\<lparr>Method = to_valid_utf8 (Method e), ID = to_valid_utf8 (ID e), Sec = to_valid_utf8 (Sec e),
       Ptype = to_valid_utf8 (Ptype e), Params = to_interface (marshal (Params e))\<rparr>, None)"
  by (simp add: decode_encode_def MarshalBinary_def UnmarshalBinary_def fmlookup_of_list)

lemma valid_examples:
  "valid_utf8 ''UpdateForRemoveFilteredPolicy''" "valid_utf8 ''UpdateForAddPolicy''"
  "valid_utf8 ''UpdateForRemovePolicy''"
  "valid_utf8 ''6ba7b810-9dad-11d1-80b4-00c04fd430c8''" "valid_utf8 ''p''"
  "valid_utf8 ''1 data1 read''" "valid_utf8 ''alice''" "valid_utf8 ''book1''" "valid_utf8 ''write''"
  by code_simp+

text \<open>
  C2, as the code has it. For every envelope whose four string fields are valid UTF-8,
  decoding its encoding (into any receiver) returns no error and reproduces
  \<^verbatim>\<open>Method\<close>, \<^verbatim>\<open>ID\<close>, \<^verbatim>\<open>Sec\<close> and \<^verbatim>\<open>Ptype\<close> exactly, with the payload replaced by what
  \<^verbatim>\<open>json.Unmarshal\<close> stores for its document. So an envelope whose payload is a valid
  UTF-8 string is reproduced exactly; a payload that is a list of valid UTF-8 strings
  comes back as a \<^verbatim>\<open>[]interface{}\<close> of the same strings in the same order; a nil list
  comes back as nil; a model snapshot comes back as the generic value of its document.
\<close>

theorem decode_encode_generic:
  assumes "valid_utf8 (Method e)" and "valid_utf8 (ID e)" and "valid_utf8 (Sec e)"
    and "valid_utf8 (Ptype e)"
  shows "decode_encode m0 e = (e\<lparr>Params := to_interface (marshal (Params e))\<rparr>, None) \<and>
         (\<forall>s. Params e = GoString s \<and> valid_utf8 s \<longrightarrow> decode_encode m0 e = (e, None)) \<and>
         (\<forall>xs. Params e = GoStrings (Some xs) \<and> (\<forall>x \<in> set xs. valid_utf8 x) \<longrightarrow>
               Params (fst (decode_encode m0 e)) = GoSlice (map GoString xs)) \<and>
         (Params e = GoStrings None \<longrightarrow> Params (fst (decode_encode m0 e)) = GoNil) \<and>
         (\<forall>doc. Params e = GoModel doc \<longrightarrow> Params (fst (decode_encode m0 e)) = to_interface doc)"
proof -
  have g: "decode_encode m0 e = (e\<lparr>Params := to_interface (marshal (Params e))\<rparr>, None)"
    using assms by (simp add: decode_encode_eq to_valid_utf8_valid)
  have s: "decode_encode m0 e = (e, None)" if "Params e = GoString s" and "valid_utf8 s" for s
    using that by (simp add: g to_valid_utf8_valid)
  have l: "Params (fst (decode_encode m0 e)) = GoSlice (map GoString xs)"
    if "Params e = GoStrings (Some xs)" and "\<forall>x \<in> set xs. valid_utf8 x" for xs
    using that by (simp add: g to_valid_utf8_valid)
  have n: "Params (fst (decode_encode m0 e)) = GoNil" if "Params e = GoStrings None"
    using that by (simp add: g)
  have m: "Params (fst (decode_encode m0 e)) = to_interface doc" if "Params e = GoModel doc" for doc
    using that by (simp add: g)
  from g s l n m show ?thesis by blast
qed

theorem decode_encode_generic_witness:
  "decode_encode zero_MSG example_filtered = (example_filtered, None) \<and>
   decode_encode zero_MSG example_added =
     (example_added\<lparr>Params := GoSlice [GoString ''alice'', GoString ''book1'', GoString ''write'']\<rparr>,
      None)"
proof -
  have f: "valid_utf8 (Method example_filtered)" "valid_utf8 (ID example_filtered)"
    "valid_utf8 (Sec example_filtered)" "valid_utf8 (Ptype example_filtered)"
    by (simp_all add: example_filtered_def valid_examples)
  have a: "valid_utf8 (Method example_added)" "valid_utf8 (ID example_added)"
    "valid_utf8 (Sec example_added)" "valid_utf8 (Ptype example_added)"
    by (simp_all add: example_added_def valid_examples)
  have pf: "Params example_filtered = GoString ''1 data1 read'' \<and> valid_utf8 ''1 data1 read''"
    by (simp add: example_filtered_def valid_examples)
  have pa: "to_interface (marshal (Params example_added)) =
      GoSlice [GoString ''alice'', GoString ''book1'', GoString ''write'']"
    by (simp add: example_added_def to_valid_utf8_valid valid_examples)
  from decode_encode_generic[OF f, of zero_MSG] pf
  have 1: "decode_encode zero_MSG example_filtered = (example_filtered, None)" by blast
  from decode_encode_generic[OF a, of zero_MSG] pa
  have 2: "decode_encode zero_MSG example_added =
     (example_added\<lparr>Params := GoSlice [GoString ''alice'', GoString ''book1'', GoString ''write'']\<rparr>,
      None)" by simp
  from 1 2 show ?thesis by simp
qed

text \<open>
  C2 as stated fails on a list payload: the envelope of
  \<^verbatim>\<open>UpdateForAddPolicy("p", "p", "alice", "book1", "write")\<close> holds a \<^verbatim>\<open>[]string\<close>, and
  decoding its encoding yields an envelope that holds a \<^verbatim>\<open>[]interface{}\<close>, which is
  a different value.
\<close>

theorem list_payload_not_reproduced:
  "decode_encode zero_MSG example_added =
     (example_added\<lparr>Params := GoSlice [GoString ''alice'', GoString ''book1'', GoString ''write'']\<rparr>,
      None) \<and>
   fst (decode_encode zero_MSG example_added) \<noteq> example_added"
  by (simp add: decode_encode_eq example_added_def to_valid_utf8_valid valid_examples)

text \<open>
  C6, as the code has it. For every section, type and field list, nil or not,
  \<^verbatim>\<open>UpdateForAddPolicy\<close> and \<^verbatim>\<open>UpdateForRemovePolicy\<close> make one \<^verbatim>\<open>Publish\<close> call with
  the envelope of their method tag whose payload is the field list as passed. When the
  list is not nil and its values are valid UTF-8, the payload of the decoded envelope is
  the list of the same strings in the same order; for
  \<^verbatim>\<open>("p", "p", "alice", "book1", "write")\<close> it is \<^verbatim>\<open>["alice","book1","write"]\<close>.
\<close>

theorem UpdateForAddPolicy_payload:
  assumes "\<forall>x \<in> set xs. valid_utf8 x"
  shows "fst (UpdateForAddPolicy w sec ptype params err) =
           pubClient_Publish (Channel (options w))
             (Envelope \<lparr>Method = ''UpdateForAddPolicy'', ID = LocalID (options w),
                        Sec = sec, Ptype = ptype, Params = GoStrings params\<rparr>) # log_if_err err \<and>
         fst (UpdateForRemovePolicy w sec ptype params err) =
           pubClient_Publish (Channel (options w))
             (Envelope \<lparr>Method = ''UpdateForRemovePolicy'', ID = LocalID (options w),
                        Sec = sec, Ptype = ptype, Params = GoStrings params\<rparr>) # log_if_err err \<and>
         Params (fst (decode_encode m0
             \<lparr>Method = ''UpdateForAddPolicy'', ID = LocalID (options w),
              Sec = sec, Ptype = ptype, Params = GoStrings (Some xs)\<rparr>)) = GoSlice (map GoString xs) \<and>
         Params (fst (decode_encode m0
             \<lparr>Method = ''UpdateForRemovePolicy'', ID = LocalID (options w),
              Sec = sec, Ptype = ptype, Params = GoStrings (Some xs)\<rparr>)) = GoSlice (map GoString xs) \<and>
         Params (fst (decode_encode m0
             \<lparr>Method = ''UpdateForAddPolicy'', ID = LocalID (options w),
              Sec = ''p'', Ptype = ''p'', Params = GoStrings (Some [''alice'', ''book1'', ''write''])\<rparr>))
           = GoSlice [GoString ''alice'', GoString ''book1'', GoString ''write'']"
proof -
  have a: "fst (UpdateForAddPolicy w sec ptype params err) =
           pubClient_Publish (Channel (options w))
             (Envelope \<lparr>Method = ''UpdateForAddPolicy'', ID = LocalID (options w),
                        Sec = sec, Ptype = ptype, Params = GoStrings params\<rparr>) # log_if_err err"
    by (cases err) (simp_all add: UpdateForAddPolicy_def logRecord_def Publish_def)
  have r: "fst (UpdateForRemovePolicy w sec ptype params err) =
           pubClient_Publish (Channel (options w))
             (Envelope \<lparr>Method = ''UpdateForRemovePolicy'', ID = LocalID (options w),
                        Sec = sec, Ptype = ptype, Params = GoStrings params\<rparr>) # log_if_err err"
    by (cases err) (simp_all add: UpdateForRemovePolicy_def logRecord_def Publish_def)
  have d: "Params (fst (decode_encode m0 \<lparr>Method = m, ID = i, Sec = s, Ptype = p,
              Params = GoStrings (Some xs)\<rparr>)) = GoSlice (map GoString xs)" for m i s p
    using assms by (simp add: decode_encode_eq to_valid_utf8_valid)
  have x: "Params (fst (decode_encode m0 \<lparr>Method = m, ID = i, Sec = s, Ptype = p,
              Params = GoStrings (Some [''alice'', ''book1'', ''write''])\<rparr>))
           = GoSlice [GoString ''alice'', GoString ''book1'', GoString ''write'']" for m i s p
    by (simp add: decode_encode_eq to_valid_utf8_valid valid_examples)
  from a r d x show ?thesis by simp
qed

theorem UpdateForAddPolicy_payload_witness:
  "fst (UpdateForAddPolicy example_watcher ''p'' ''p'' (Some [''alice'', ''book1'', ''write'']) None) =
     [pubClient_Publish ''/casbin'' (Envelope example_added)] \<and>
   Params (fst (decode_encode zero_MSG example_added)) =
     GoSlice [GoString ''alice'', GoString ''book1'', GoString ''write'']"
proof -
  have h: "\<forall>x \<in> set [''alice'', ''book1'', ''write'']. valid_utf8 x"
    by (simp add: valid_examples)
  have o: "Channel (options example_watcher) = ''/casbin''"
    "LocalID (options example_watcher) = ''6ba7b810-9dad-11d1-80b4-00c04fd430c8''"
    by (simp_all add: example_watcher_def)
  show ?thesis
    using UpdateForAddPolicy_payload[OF h, of example_watcher "''p''" "''p''"
        "Some [''alice'', ''book1'', ''write'']" None zero_MSG]
    by (simp add: o example_added_def)
qed

text \<open>
  C6 as stated fails on the empty field list: \<^verbatim>\<open>UpdateForAddPolicy("p", "p")\<close> passes
  a nil \<^verbatim>\<open>[]string\<close>, which is encoded as \<^verbatim>\<open>null\<close>, and the payload of the decoded
  envelope is nil, not the empty list.
\<close>

theorem no_fields_decode_to_nil:
  "fst (UpdateForAddPolicy example_watcher ''p'' ''p'' None None) =
     [pubClient_Publish ''/casbin'' (Envelope example_added_nothing)] \<and>
   Params (fst (decode_encode zero_MSG example_added_nothing)) = GoNil \<and>
   Params (fst (decode_encode zero_MSG example_added_nothing)) \<noteq> GoSlice (map GoString [])"
  by (simp add: UpdateForAddPolicy_def logRecord_def Publish_def decode_encode_eq
      example_added_nothing_def example_watcher_def)

end
